theory Spec2Isabelle
  imports Main
begin

section \<open>Python values used by the search code\<close>

text \<open>
  Strings are lists of characters. A character stands for the Unicode code point of the
  same number, so the model covers the strings over code points 0 to 255; \<open>length\<close>
  counts code points, as Python's \<open>len\<close> does.
\<close>

text \<open>The exceptions that the modelled code can meet.\<close>

datatype exn =
    AttributeError
  | TypeError
  | IndexError
  | ValueError
  | JSONDecodeError
  | TagDoesNotExist
  | DatabaseError
  | ApiError

text \<open>\<open>str.isspace\<close> on one character: the code points below 256 that Python counts as
  whitespace.\<close>

definition isspace :: "char \<Rightarrow> bool" where
  "isspace c = (of_char c \<in> set [9, 10, 11, 12, 13, 28, 29, 30, 31, 32, 133, 160 :: nat])"

text \<open>\<open>str.lower\<close> on one character: A to Z and the upper-case letters of Latin-1.\<close>

definition lower_char :: "char \<Rightarrow> char" where
  "lower_char c =
     (let n = (of_char c :: nat)
      in if (65 \<le> n \<and> n \<le> 90) \<or> (192 \<le> n \<and> n \<le> 222 \<and> n \<noteq> 215)
         then char_of (n + 32) else c)"

definition lower :: "string \<Rightarrow> string" where
  "lower s = map lower_char s"

definition strip :: "string \<Rightarrow> string" where
  "strip s = rev (dropWhile isspace (rev (dropWhile isspace s)))"

text \<open>\<open>str.split()\<close> with no argument: the maximal runs of characters that are not
  whitespace, in order. The first argument is the run read so far.\<close>

fun split_from :: "string \<Rightarrow> string \<Rightarrow> string list" where
  "split_from cur [] = (if cur = [] then [] else [cur])"
| "split_from cur (c # cs) =
     (if isspace c
      then (if cur = [] then split_from [] cs else cur # split_from [] cs)
      else split_from (cur @ [c]) cs)"

definition split :: "string \<Rightarrow> string list" where
  "split s = split_from [] s"

text \<open>\<open>needle in hay\<close> for strings.\<close>

fun startswith :: "string \<Rightarrow> string \<Rightarrow> bool" where
  "startswith hay [] = True"
| "startswith [] (c # cs) = False"
| "startswith (h # hs) (c # cs) = (h = c \<and> startswith hs cs)"

fun contains :: "string \<Rightarrow> string \<Rightarrow> bool" where
  "contains [] needle = (needle = [])"
| "contains (h # hs) needle = (startswith (h # hs) needle \<or> contains hs needle)"

text \<open>\<open>int(s)\<close> for a string: surrounding whitespace is dropped, one sign is allowed, and
  the digits may be grouped by single underscores. \<open>None\<close> stands for the
  \<open>ValueError\<close>.\<close>

definition isdigit :: "char \<Rightarrow> bool" where
  "isdigit c = (48 \<le> (of_char c :: nat) \<and> (of_char c :: nat) \<le> 57)"

fun parse_digits :: "nat \<Rightarrow> bool \<Rightarrow> string \<Rightarrow> nat option" where
  "parse_digits acc prev [] = (if prev then Some acc else None)"
| "parse_digits acc prev (c # cs) =
     (if isdigit c then parse_digits (acc * 10 + (of_char c - 48)) True cs
      else if c = CHR ''_'' \<and> prev then parse_digits acc False cs
      else None)"

definition py_int :: "string \<Rightarrow> int option" where
  "py_int s =
     (case strip s of
        [] \<Rightarrow> None
      | c # cs \<Rightarrow>
          if c = CHR ''-'' then map_option (\<lambda>n. - int n) (parse_digits 0 False cs)
          else if c = CHR ''+'' then map_option int (parse_digits 0 False cs)
          else map_option int (parse_digits 0 False (c # cs)))"

text \<open>
  A parsed JSON document, as \<open>json.loads\<close> returns it. A float is kept as the integer
  it is equal to, when there is one (\<open>2.0\<close> is \<open>JFloat (Some 2)\<close>; \<open>2.5\<close>, \<open>NaN\<close> and
  the infinities are \<open>JFloat None\<close>): equality with an identifier is all the code asks of
  it. An object is its list of members; the keys of a parsed object are distinct.
\<close>

datatype json =
    JNull
  | JBool bool
  | JInt int
  | JFloat "int option"
  | JStr string
  | JArr "json list"
  | JObj "(string \<times> json) list"

text \<open>The integer a value is equal to under Python's \<open>==\<close> (\<open>True == 1\<close>,
  \<open>2.0 == 2\<close>), if any.\<close>

fun as_int :: "json \<Rightarrow> int option" where
  "as_int (JInt i) = Some i"
| "as_int (JBool b) = Some (if b then 1 else 0)"
| "as_int (JFloat r) = r"
| "as_int v = None"

text \<open>Lists and dicts are not hashable: a membership test in a set raises
  \<open>TypeError\<close> for them.\<close>

fun hashable :: "json \<Rightarrow> bool" where
  "hashable (JArr xs) = False"
| "hashable (JObj kvs) = False"
| "hashable v = True"

text \<open>\<open>for x in v\<close>: a list gives its elements, a string its characters, a dict its
  keys; the other values are not iterable.\<close>

fun iterate :: "json \<Rightarrow> exn + json list" where
  "iterate (JArr xs) = Inr xs"
| "iterate (JStr s) = Inr (map (\<lambda>c. JStr [c]) s)"
| "iterate (JObj kvs) = Inr (map (\<lambda>kv. JStr (fst kv)) kvs)"
| "iterate v = Inl TypeError"

section \<open>The catalog store\<close>

text \<open>
  \<open>Product\<close> and \<open>Tag\<close> are Django models declared in \<open>models.py\<close>; the views and
  the service read the fields below. \<open>name\<close> and \<open>description\<close> may be \<open>NULL\<close>
  (the service writes \<open>product['name'] or ''\<close>). \<open>tags\<close> holds the identifiers of the
  product's tags.
\<close>

record product =
  product_id :: int
  name :: "string option"
  description :: "string option"
  article :: string
  tags :: "int list"
  created_at :: int

record tag =
  tag_id :: int
  tag_name :: string
  parent :: "int option"
  tag_order :: int

text \<open>
  The database: its rows in the store's default order, and whether a query sent to it
  succeeds. A query sent while the database is not reachable raises.

  The code does not compare texts itself: it sends \<open>icontains\<close> lookups, and the
  database decides which texts match, with the case folding of its own \<open>LIKE\<close>.
  \<open>db_icontains\<close> is that decision, for the text of a column and the term looked up.
\<close>

record store =
  product_rows :: "product list"
  tag_rows :: "tag list"
  reachable :: bool
  db_icontains :: "string \<Rightarrow> string \<Rightarrow> bool"

text \<open>\<open>column__icontains = term\<close>, as the database of the store evaluates it. A
  \<open>NULL\<close> column matches nothing.\<close>

definition icontains :: "store \<Rightarrow> string option \<Rightarrow> string \<Rightarrow> bool" where
  "icontains st col term =
     (case col of None \<Rightarrow> False | Some v \<Rightarrow> db_icontains st v term)"

text \<open>Django's \<open>Q\<close> objects, as far as the code builds them: the empty \<open>Q()\<close>, one
  \<open>icontains\<close> lookup, and the disjunction \<open>|\<close>.\<close>

datatype product_field = Name | Description | Article

datatype Q = QEmpty | QIcontains product_field string | QOr Q Q

text \<open>\<open>a | b\<close>: an empty operand is dropped.\<close>

fun q_or :: "Q \<Rightarrow> Q \<Rightarrow> Q" where
  "q_or QEmpty b = b"
| "q_or a QEmpty = a"
| "q_or a b = QOr a b"

text \<open>\<open>bool(q)\<close>: a \<open>Q\<close> is true when it has a child.\<close>

fun q_bool :: "Q \<Rightarrow> bool" where
  "q_bool QEmpty = False"
| "q_bool q = True"

fun column :: "product_field \<Rightarrow> product \<Rightarrow> string option" where
  "column Name p = name p"
| "column Description p = description p"
| "column Article p = Some (article p)"

text \<open>Whether a row satisfies the \<open>WHERE\<close> clause of a \<open>Q\<close>; the empty \<open>Q()\<close>
  filters nothing out.\<close>

fun q_matches :: "store \<Rightarrow> Q \<Rightarrow> product \<Rightarrow> bool" where
  "q_matches st QEmpty p = True"
| "q_matches st (QIcontains f t) p = icontains st (column f p) t"
| "q_matches st (QOr a b) p = (q_matches st a p \<or> q_matches st b p)"

text \<open>\<open>Product.objects.filter(q)\<close>, once evaluated.\<close>

definition Product_filter :: "store \<Rightarrow> Q \<Rightarrow> exn + product list" where
  "Product_filter st q =
     (if reachable st then Inr (filter (q_matches st q) (product_rows st))
      else Inl DatabaseError)"

section \<open>The literal matcher: \<open>SmartSearchService.fallback_search\<close>\<close>

text \<open>The three lookups that one term adds to \<open>q_objects\<close>.\<close>

definition term_q :: "string \<Rightarrow> Q" where
  "term_q t =
     q_or (q_or (QIcontains Name t) (QIcontains Description t)) (QIcontains Article t)"

text \<open>One round of the loop over the terms.\<close>

definition add_term :: "Q \<Rightarrow> string \<Rightarrow> Q" where
  "add_term q_objects t = (if length t > 2 then q_or q_objects (term_q t) else q_objects)"

definition fallback_search :: "store \<Rightarrow> string \<Rightarrow> exn + int list" where
  "fallback_search st query =
     (let terms = split (lower query);
          q_objects = foldl add_term QEmpty terms
      in if q_bool q_objects
         then (case Product_filter st q_objects of
                 Inl e \<Rightarrow> Inl e
               | Inr ps \<Rightarrow> Inr (map product_id ps))
         else Inr [])"

section \<open>The semantic query service: \<open>SmartSearchService\<close>\<close>

text \<open>The two flags that \<open>__init__\<close> sets.\<close>

record service =
  api_available :: bool
  api_configured :: bool

text \<open>
  \<open>__init__\<close>. Its inputs are the module constant \<open>OPENAI_AVAILABLE\<close> (whether
  \<open>import openai\<close> succeeded) and the setting \<open>OPENAI_API_KEY\<close>, \<open>None\<close> when it is
  not set.
\<close>

definition SmartSearchService_init :: "bool \<Rightarrow> string option \<Rightarrow> service" where
  "SmartSearchService_init OPENAI_AVAILABLE OPENAI_API_KEY =
     (if OPENAI_AVAILABLE
      then (case OPENAI_API_KEY of
              None \<Rightarrow> \<lparr>api_available = True, api_configured = False\<rparr>
            | Some api_key \<Rightarrow>
                if api_key \<noteq> [] \<and> strip api_key \<noteq> []
                then \<lparr>api_available = True, api_configured = True\<rparr>
                else \<lparr>api_available = True, api_configured = False\<rparr>)
      else \<lparr>api_available = False, api_configured = False\<rparr>)"

text \<open>One entry of the catalog context.\<close>

record context_entry =
  ctx_id :: int
  ctx_name :: string
  ctx_description :: string
  ctx_article :: string

text \<open>\<open>x or ''\<close> for a column that may be \<open>NULL\<close>.\<close>

definition or_empty :: "string option \<Rightarrow> string" where
  "or_empty x = (case x of None \<Rightarrow> [] | Some s \<Rightarrow> s)"

definition product_info :: "product \<Rightarrow> context_entry" where
  "product_info p =
     \<lparr>ctx_id = product_id p, ctx_name = or_empty (name p),
      ctx_description = or_empty (description p), ctx_article = article p\<rparr>"

definition get_all_products_for_context :: "store \<Rightarrow> exn + context_entry list" where
  "get_all_products_for_context st =
     (if reachable st then Inr (map product_info (product_rows st)) else Inl DatabaseError)"

text \<open>
  The prompt is a fixed text around the query and one line per context entry. The model
  keeps the two parts that vary.
\<close>

record prompt =
  prompt_query :: string
  prompt_products :: "context_entry list"

definition create_enhanced_search_prompt :: "string \<Rightarrow> context_entry list \<Rightarrow> prompt" where
  "create_enhanced_search_prompt original_query products =
     \<lparr>prompt_query = original_query, prompt_products = products\<rparr>"

text \<open>
  What lies outside the program: \<open>chat_create\<close> is the call of
  \<open>openai.ChatCompletion.create\<close>, which raises or returns the \<open>message.content\<close> of
  each choice (\<open>None\<close> for a choice without content); \<open>json_loads\<close> is
  \<open>json.loads\<close>, which raises \<open>JSONDecodeError\<close> on a text that is not JSON.
\<close>

record externals =
  chat_create :: "prompt \<Rightarrow> exn + string option list"
  json_loads :: "string \<Rightarrow> exn + json"

text \<open>What a call does besides returning: its log lines, and the steps towards the
  language model.\<close>

datatype loglevel = LInfo | LWarning | LError

datatype event = EvLog loglevel | EvContext | EvPrompt | EvLLM prompt

text \<open>\<open>response.choices[0].message.content.strip()\<close>.\<close>

definition response_text :: "string option list \<Rightarrow> exn + string" where
  "response_text choices =
     (case choices of
        [] \<Rightarrow> Inl IndexError
      | None # _ \<Rightarrow> Inl AttributeError
      | Some content # _ \<Rightarrow> Inr (strip content))"

text \<open>\<open>result.get("relevant_products", [])\<close>: only a dict has \<open>get\<close>.\<close>

definition get_relevant_products :: "json \<Rightarrow> exn + json" where
  "get_relevant_products result =
     (case result of
        JObj kvs \<Rightarrow>
          (case map_of kvs ''relevant_products'' of None \<Rightarrow> Inr (JArr []) | Some v \<Rightarrow> Inr v)
      | _ \<Rightarrow> Inl AttributeError)"

text \<open>
  \<open>[pid for pid in product_ids if pid in existing_ids]\<close> over the elements of
  \<open>product_ids\<close>. An identifier that passes is equal to an integer of
  \<open>existing_ids\<close> and is returned as that integer.
\<close>

fun keep_existing :: "int list \<Rightarrow> json list \<Rightarrow> exn + int list" where
  "keep_existing existing_ids [] = Inr []"
| "keep_existing existing_ids (pid # pids) =
     (if \<not> hashable pid then Inl TypeError
      else (case keep_existing existing_ids pids of
              Inl e \<Rightarrow> Inl e
            | Inr rest \<Rightarrow>
                (case as_int pid of
                   None \<Rightarrow> Inr rest
                 | Some i \<Rightarrow> if i \<in> set existing_ids then Inr (i # rest) else Inr rest)))"

text \<open>\<open>Product.objects.values_list('id', flat=True)\<close>, once evaluated.\<close>

definition Product_ids :: "store \<Rightarrow> exn + int list" where
  "Product_ids st =
     (if reachable st then Inr (map product_id (product_rows st)) else Inl DatabaseError)"

text \<open>
  The inner \<open>try\<close> of \<open>search_with_chatgpt\<close>, from \<open>json.loads\<close> on.
  \<open>Inl\<close> is an exception that leaves it: its handler takes \<open>JSONDecodeError\<close>
  only, and the literal search that the handler starts may raise too.
\<close>

definition validate_response :: "externals \<Rightarrow> store \<Rightarrow> string \<Rightarrow> string \<Rightarrow> event list \<times> (exn + int list)" where
  "validate_response ext st query text =
     (case json_loads ext text of
        Inl e \<Rightarrow>
          if e = JSONDecodeError then ([EvLog LError], fallback_search st query)
          else ([], Inl e)
      | Inr result \<Rightarrow>
          (case get_relevant_products result of
             Inl e \<Rightarrow> ([], Inl e)
           | Inr product_ids \<Rightarrow>
               (case Product_ids st of
                  Inl e \<Rightarrow> ([], Inl e)
                | Inr existing_ids \<Rightarrow>
                    (case iterate product_ids of
                       Inl e \<Rightarrow> ([], Inl e)
                     | Inr pids \<Rightarrow>
                         (case keep_existing existing_ids pids of
                            Inl e \<Rightarrow> ([], Inl e)
                          | Inr valid_ids \<Rightarrow>
                              if valid_ids = [] then ([], fallback_search st query)
                              else ([], Inr valid_ids))))))"

text \<open>The outer \<open>try\<close> of \<open>search_with_chatgpt\<close>; \<open>Inl\<close> is an exception that
  reaches \<open>except Exception\<close>.\<close>

definition semantic_attempt :: "externals \<Rightarrow> store \<Rightarrow> string \<Rightarrow> event list \<times> (exn + int list)" where
  "semantic_attempt ext st query =
     (case get_all_products_for_context st of
        Inl e \<Rightarrow> ([EvContext], Inl e)
      | Inr products \<Rightarrow>
          if products = [] then ([EvContext], Inr [])
          else
            (let prompt = create_enhanced_search_prompt query products
             in case chat_create ext prompt of
                  Inl e \<Rightarrow> ([EvContext, EvPrompt, EvLLM prompt], Inl e)
                | Inr choices \<Rightarrow>
                    (case response_text choices of
                       Inl e \<Rightarrow> ([EvContext, EvPrompt, EvLLM prompt], Inl e)
                     | Inr text \<Rightarrow>
                         (case validate_response ext st query text of
                            (evs, r) \<Rightarrow>
                              ([EvContext, EvPrompt, EvLLM prompt, EvLog LInfo] @ evs, r)))))"

definition search_with_chatgpt :: "service \<Rightarrow> externals \<Rightarrow> store \<Rightarrow> string \<Rightarrow> event list \<times> (exn + int list)" where
  "search_with_chatgpt self ext st query =
     (if \<not> api_available self \<or> \<not> api_configured self
      then ([EvLog LWarning], fallback_search st query)
      else (case semantic_attempt ext st query of
              (evs, Inl e) \<Rightarrow> (evs @ [EvLog LError], fallback_search st query)
            | (evs, Inr ids) \<Rightarrow> (evs, Inr ids)))"

text \<open>
  The value of \<open>products\<close> in \<open>smart_search\<close> and in the view: a Python list, or a
  queryset that the database has yet to evaluate. A queryset is kept as the rows it
  selects when its evaluation succeeds.
\<close>

datatype products = AsList "product list" | AsQuerySet "product list"

text \<open>\<open>Product.objects.filter(id__in=product_ids)\<close>, once evaluated.\<close>

definition Product_id_in :: "store \<Rightarrow> int list \<Rightarrow> exn + product list" where
  "Product_id_in st product_ids =
     (if reachable st
      then Inr (filter (\<lambda>p. product_id p \<in> set product_ids) (product_rows st))
      else Inl DatabaseError)"

text \<open>\<open>{p.id: p for p in products}\<close>: a later row replaces an earlier one under the
  same key.\<close>

definition product_dict_of :: "product list \<Rightarrow> int \<Rightarrow> product option" where
  "product_dict_of ps = map_of (rev (map (\<lambda>p. (product_id p, p)) ps))"

definition smart_search :: "service \<Rightarrow> externals \<Rightarrow> store \<Rightarrow> string \<Rightarrow> event list \<times> (exn + products)" where
  "smart_search self ext st query =
     (if query = [] \<or> strip query = [] then ([], Inr (AsQuerySet []))
      else (case search_with_chatgpt self ext st query of
              (evs, Inl e) \<Rightarrow> (evs, Inl e)
            | (evs, Inr product_ids) \<Rightarrow>
                if product_ids = [] then (evs, Inr (AsQuerySet []))
                else (case Product_id_in st product_ids of
                        Inl e \<Rightarrow> (evs, Inl e)
                      | Inr ps \<Rightarrow>
                          (let product_dict = product_dict_of ps;
                               ordered = List.map_filter product_dict product_ids
                           in (evs, Inr (AsList ordered))))))"

section \<open>The views: \<open>smart_search_status\<close> and \<open>product_list\<close>\<close>

text \<open>
  \<open>smart_search_status\<close>: the JSON object of the response. Its inputs are the module's
  service instance and the setting \<open>OPENAI_API_KEY\<close>, \<open>None\<close> when it is not set.
\<close>

definition smart_search_status :: "service \<Rightarrow> string option \<Rightarrow> json" where
  "smart_search_status smart_search_service OPENAI_API_KEY =
     (let api_key_configured = (case OPENAI_API_KEY of None \<Rightarrow> False | Some k \<Rightarrow> k \<noteq> [])
      in JObj [(''available'', JBool (api_key_configured \<and> api_available smart_search_service)),
               (''configured'', JBool api_key_configured)])"

text \<open>
  \<open>smart_search_service.expand_search_query\<close>: the class \<open>SmartSearchService\<close> defines
  \<open>__init__\<close>, \<open>get_all_products_for_context\<close>, \<open>create_enhanced_search_prompt\<close>,
  \<open>search_with_chatgpt\<close>, \<open>fallback_search\<close> and \<open>smart_search\<close>, and its instances
  hold \<open>api_available\<close> and \<open>api_configured\<close>. The lookup of any other attribute
  raises.
\<close>

definition getattr_expand_search_query :: "service \<Rightarrow> exn + (string \<Rightarrow> string)" where
  "getattr_expand_search_query smart_search_service = Inl AttributeError"

text \<open>\<open>order_by('-created_at')\<close>: newest first. The database promises no order among
  rows of one date; the model keeps them in the order of the store.\<close>

definition order_by_created_desc :: "product list \<Rightarrow> product list" where
  "order_by_created_desc ps = sort_key (\<lambda>p. - created_at p) ps"

text \<open>
  \<open>Tag.objects.get(id=value)\<close>. The identifier of a tag is Django's integer key (the
  view orders tags by \<open>id\<close> for the creation date), so the value is converted with
  \<open>int\<close> before the database is asked; a value that is no integer raises
  \<open>ValueError\<close>.
\<close>

definition Tag_get :: "store \<Rightarrow> string \<Rightarrow> exn + tag" where
  "Tag_get st v =
     (case py_int v of
        None \<Rightarrow> Inl ValueError
      | Some i \<Rightarrow>
          if \<not> reachable st then Inl DatabaseError
          else (case find (\<lambda>t. tag_id t = i) (tag_rows st) of
                  None \<Rightarrow> Inl TagDoesNotExist
                | Some t \<Rightarrow> Inr t))"

text \<open>
  Modelled from the spec: \<open>Tag.get_descendants\<close> is a method of the model in
  \<open>models.py\<close>. The spec: a tag has a nullable parent reference, the tags form a tree,
  and the filter uses "the filter tag plus all its descendant tags (full subtree)". The
  first argument bounds the depth by the number of tags.
\<close>

fun descendants_upto :: "nat \<Rightarrow> tag list \<Rightarrow> tag \<Rightarrow> tag list" where
  "descendants_upto 0 ts t = []"
| "descendants_upto (Suc n) ts t =
     concat (map (\<lambda>c. c # descendants_upto n ts c)
                 (filter (\<lambda>c. parent c = Some (tag_id t)) ts))"

definition get_descendants :: "store \<Rightarrow> tag \<Rightarrow> tag list" where
  "get_descendants st t = descendants_upto (length (tag_rows st)) (tag_rows st) t"

text \<open>\<open>any(tag in product.tags.all() for tag in all_tags)\<close>.\<close>

definition has_any_tag :: "tag list \<Rightarrow> product \<Rightarrow> bool" where
  "has_any_tag all_tags p = list_ex (\<lambda>t. tag_id t \<in> set (tags p)) all_tags"

text \<open>\<open>bool(products)\<close>.\<close>

fun truthy :: "products \<Rightarrow> bool" where
  "truthy (AsList ps) = (ps \<noteq> [])"
| "truthy (AsQuerySet ps) = (ps \<noteq> [])"

text \<open>The request: the three query parameters, \<open>None\<close> when absent.\<close>

record request =
  GET_search :: "string option"
  GET_tag :: "string option"
  GET_page :: "string option"

datatype message = SmartSearchUnavailable

text \<open>The part of the template context that the search decides.\<close>

record page_context =
  products_page :: "product list"
  products_count :: nat
  search_type :: string
  selected_tag_obj :: "tag option"
  warnings :: "message list"

text \<open>The search block of \<open>product_list\<close>: the products, the search type and the
  messages after it.\<close>

definition search_block :: "service \<Rightarrow> externals \<Rightarrow> store \<Rightarrow> string \<Rightarrow> exn + (products \<times> string \<times> message list)" where
  "search_block smart_search_service ext st search_query =
     (if search_query \<noteq> []
      then (case snd (smart_search smart_search_service ext st search_query) of
              Inr smart_products \<Rightarrow>
                if truthy smart_products then Inr (smart_products, ''smart'', [])
                else Inr (AsList [], ''smart'', [])
            | Inl e \<Rightarrow>
                (case getattr_expand_search_query smart_search_service of
                   Inl e' \<Rightarrow> Inl e'
                 | Inr expand_search_query \<Rightarrow>
                     (let expanded_query = expand_search_query search_query;
                          q = q_or (q_or (q_or (q_or (QIcontains Name search_query)
                                                     (QIcontains Article search_query))
                                               (QIcontains Description search_query))
                                         (QIcontains Name expanded_query))
                                   (QIcontains Description expanded_query)
                      in Inr (AsQuerySet (order_by_created_desc
                                            (filter (q_matches st q) (product_rows st))),
                              ''fallback'', [SmartSearchUnavailable]))))
      else Inr (AsQuerySet (product_rows st), ''all'', []))"

text \<open>The tag block: the selected tag, the products and the search type after it.\<close>

definition tag_block :: "store \<Rightarrow> string \<Rightarrow> string \<Rightarrow> products \<Rightarrow> string \<Rightarrow> exn + (tag option \<times> products \<times> string)" where
  "tag_block st search_query tag_filter products stype =
     (if tag_filter \<noteq> []
      then (case Tag_get st tag_filter of
              Inl e \<Rightarrow>
                if e = TagDoesNotExist then Inr (None, products, stype) else Inl e
            | Inr selected_tag \<Rightarrow>
                (let all_tags = selected_tag # get_descendants st selected_tag;
                     filtered =
                       (if search_query \<noteq> []
                        then (case products of
                                AsList ps \<Rightarrow> AsList (filter (has_any_tag all_tags) ps)
                              | AsQuerySet ps \<Rightarrow> AsQuerySet (filter (has_any_tag all_tags) ps))
                        else AsQuerySet (order_by_created_desc
                                           (filter (has_any_tag all_tags) (product_rows st))))
                 in Inr (Some selected_tag, filtered,
                         if search_query = [] then ''tag'' else stype @ ''_tag'')))
      else Inr (None, products, stype))"

text \<open>
  \<open>Paginator(products, 30)\<close> and the page asked for: a page number that is no integer
  gives page 1, one out of range the last page. Counting a queryset asks the database.
\<close>

definition num_pages :: "nat \<Rightarrow> nat" where
  "num_pages count = (max 1 count + 29) div 30"

definition page_number_of :: "string option \<Rightarrow> nat \<Rightarrow> nat" where
  "page_number_of page count =
     (case (case page of None \<Rightarrow> Some 1 | Some s \<Rightarrow> py_int s) of
        None \<Rightarrow> 1
      | Some i \<Rightarrow> if i < 1 \<or> i > int (num_pages count) then num_pages count else nat i)"

definition paginate :: "store \<Rightarrow> products \<Rightarrow> string option \<Rightarrow> exn + (product list \<times> nat)" where
  "paginate st products page =
     (case products of
        AsList ps \<Rightarrow>
          Inr (take 30 (drop ((page_number_of page (length ps) - 1) * 30) ps), length ps)
      | AsQuerySet ps \<Rightarrow>
          if reachable st
          then Inr (take 30 (drop ((page_number_of page (length ps) - 1) * 30) ps), length ps)
          else Inl DatabaseError)"

definition or_blank :: "string option \<Rightarrow> string" where
  "or_blank x = (case x of None \<Rightarrow> [] | Some s \<Rightarrow> s)"

definition product_list :: "service \<Rightarrow> externals \<Rightarrow> store \<Rightarrow> request \<Rightarrow> exn + page_context" where
  "product_list smart_search_service ext st request =
     (let search_query = strip (or_blank (GET_search request));
          tag_filter = or_blank (GET_tag request)
      in case search_block smart_search_service ext st search_query of
           Inl e \<Rightarrow> Inl e
         | Inr (products, stype, msgs) \<Rightarrow>
             (case tag_block st search_query tag_filter products stype of
                Inl e \<Rightarrow> Inl e
              | Inr (selected_tag, products', stype') \<Rightarrow>
                  (let final = (if search_query = [] \<and> tag_filter = []
                                then (AsQuerySet (order_by_created_desc (product_rows st)), ''all'')
                                else (products', stype'))
                   in case paginate st (fst final) (GET_page request) of
                        Inl e \<Rightarrow> Inl e
                      | Inr (page, count) \<Rightarrow>
                          Inr \<lparr>products_page = page, products_count = count,
                               search_type = snd final, selected_tag_obj = selected_tag,
                               warnings = msgs\<rparr>)))"

section \<open>A database: SQLite\<close>

text \<open>
  The \<open>LIKE\<close> of SQLite, the database of a default Django project, as it evaluates
  \<open>icontains\<close>: it folds the letters A to Z only, and it reads the text and the
  pattern as C strings, up to their first NUL. The pattern is the term between two
  \<open>%\<close>, its own \<open>%\<close>, \<open>_\<close> and backslash escaped: a pattern cut by a NUL of the
  term has lost its closing \<open>%\<close> and asks for a text that ends with the rest.
\<close>

definition ascii_lower_char :: "char \<Rightarrow> char" where
  "ascii_lower_char c =
     (let n = (of_char c :: nat)
      in if 65 \<le> n \<and> n \<le> 90 then char_of (n + 32) else c)"

definition c_string :: "string \<Rightarrow> string" where
  "c_string s = takeWhile (\<lambda>c. c \<noteq> CHR 0x00) s"

definition sqlite_icontains :: "string \<Rightarrow> string \<Rightarrow> bool" where
  "sqlite_icontains v term =
     (let hay = map ascii_lower_char (c_string v);
          needle = map ascii_lower_char (c_string term)
      in if c_string term = term then contains hay needle
         else startswith (rev hay) (rev needle))"

section \<open>The literal matcher as the specification words it\<close>



section \<open>Example data\<close>

text \<open>A small catalog, in the store's order 2, 5, 9, and the answers of a language
  model, used to run the definitions.\<close>

definition example_lamp :: product where
  "example_lamp =
     \<lparr>product_id = 2, name = Some ''CCC Lamp'', description = None, article = ''A-2'',
      tags = [1], created_at = 10\<rparr>"

definition example_chair :: product where
  "example_chair =
     \<lparr>product_id = 5, name = Some ''bb a'', description = Some ''Oak chair'', article = ''A-5'',
      tags = [], created_at = 20\<rparr>"

definition example_microphone :: product where
  "example_microphone =
     \<lparr>product_id = 9, name = Some ''Microphone'', description = Some [], article = ''M-9'',
      tags = [2], created_at = 30\<rparr>"

definition example_tags :: "tag list" where
  "example_tags =
     [\<lparr>tag_id = 1, tag_name = ''Light'', parent = None, tag_order = 0\<rparr>,
      \<lparr>tag_id = 2, tag_name = ''Sound'', parent = None, tag_order = 1\<rparr>]"

definition example_store :: store where
  "example_store =
     \<lparr>product_rows = [example_lamp, example_chair, example_microphone],
      tag_rows = example_tags, reachable = True, db_icontains = sqlite_icontains\<rparr>"

definition empty_store :: store where
  "empty_store =
     \<lparr>product_rows = [], tag_rows = example_tags, reachable = True,
      db_icontains = sqlite_icontains\<rparr>"

definition offline_store :: store where
  "offline_store =
     \<lparr>product_rows = [example_lamp, example_chair, example_microphone],
      tag_rows = example_tags, reachable = False, db_icontains = sqlite_icontains\<rparr>"





text \<open>A model that answers every prompt with the document \<open>v\<close>, sent as the text
  \<open>''json''\<close> between two blanks.\<close>

definition answering :: "json \<Rightarrow> externals" where
  "answering v =
     \<lparr>chat_create = (\<lambda>p. Inr [Some '' json '']),
      json_loads = (\<lambda>t. if t = ''json'' then Inr v else Inl JSONDecodeError)\<rparr>"

text \<open>A model that answers every prompt with the text \<open>not json\<close>.\<close>

definition garbling :: externals where
  "garbling =
     \<lparr>chat_create = (\<lambda>p. Inr [Some ''not json'']),
      json_loads = (\<lambda>t. Inl JSONDecodeError)\<rparr>"

definition relevant :: "json list \<Rightarrow> json" where
  "relevant ids = JObj [(''relevant_products'', JArr ids), (''reasoning'', JStr ''why'')]"

section \<open>The literal matcher\<close>

lemma q_bool_q_or [simp]: "q_bool (q_or a b) = (q_bool a \<or> q_bool b)"
  by (cases a; cases b) auto

lemma q_matches_q_or:
  "q_bool a \<or> q_bool b \<Longrightarrow>
   q_matches st (q_or a b) p =
     ((q_bool a \<and> q_matches st a p) \<or> (q_bool b \<and> q_matches st b p))"
  by (cases a; cases b) auto

lemma term_q_bool [simp]: "q_bool (term_q t)"
  by (simp add: term_q_def)

lemma term_q_matches [simp]:
  "q_matches st (term_q t) p =
     (icontains st (name p) t \<or> icontains st (description p) t
      \<or> icontains st (Some (article p)) t)"
  by (simp add: term_q_def)

lemma add_term_long: "length t > 2 \<Longrightarrow> add_term q t = q_or q (term_q t)"
  by (simp add: add_term_def)

lemma add_term_short: "\<not> length t > 2 \<Longrightarrow> add_term q t = q"
  by (simp add: add_term_def)

text \<open>After the loop, \<open>q_objects\<close> is true exactly when a term survived.\<close>

lemma foldl_add_term_bool:
  "q_bool (foldl add_term q ts) = (q_bool q \<or> filter (\<lambda>t. length t > 2) ts \<noteq> [])"
proof (induction ts arbitrary: q)
  case Nil
  then show ?case by simp
next
  case (Cons t ts)
  then show ?case by (cases "length t > 2") (simp_all add: add_term_long add_term_short)
qed

text \<open>What the loop's \<open>q_objects\<close> selects: the rows of the start value, and the rows
  that hold a surviving term in one of the three columns.\<close>

lemma foldl_add_term_matches:
  "q_bool (foldl add_term q ts) \<Longrightarrow>
   q_matches st (foldl add_term q ts) p =
     ((q_bool q \<and> q_matches st q p) \<or>
      list_ex (\<lambda>t. icontains st (name p) t \<or> icontains st (description p) t
                   \<or> icontains st (Some (article p)) t)
              (filter (\<lambda>t. length t > 2) ts))"
proof (induction ts arbitrary: q)
  case Nil
  then show ?case by simp
next
  case (Cons t ts)
  show ?case
  proof (cases "length t > 2")
    case True
    have "q_bool (foldl add_term (q_or q (term_q t)) ts)"
      using Cons.prems True by (simp add: add_term_long)
    from Cons.IH[OF this] True show ?thesis
      by (auto simp: add_term_long q_matches_q_or)
  next
    case False
    then have "q_bool (foldl add_term q ts)" using Cons.prems by (simp add: add_term_short)
    from Cons.IH[OF this] False show ?thesis by (simp add: add_term_short)
  qed
qed

lemma fallback_search_terms:
  "fallback_search st query =
     (let terms = filter (\<lambda>t. length t > 2) (split (lower query))
      in if terms = [] then Inr []
         else if reachable st
         then Inr (map product_id
                (filter (\<lambda>p. list_ex (\<lambda>t. icontains st (name p) t
                                         \<or> icontains st (description p) t
                                         \<or> icontains st (Some (article p)) t) terms)
                        (product_rows st)))
         else Inl DatabaseError)"
proof -
  let ?ts = "split (lower query)"
  let ?sv = "filter (\<lambda>t. length t > 2) ?ts"
  show ?thesis
  proof (cases "?sv = []")
    case True
    then have "\<not> q_bool (foldl add_term QEmpty ?ts)"
      by (simp add: foldl_add_term_bool)
    with True show ?thesis by (simp add: fallback_search_def Let_def)
  next
    case False
    then have b: "q_bool (foldl add_term QEmpty ?ts)"
      by (simp add: foldl_add_term_bool)
    have m: "q_matches st (foldl add_term QEmpty ?ts) =
               (\<lambda>p. list_ex (\<lambda>t. icontains st (name p) t \<or> icontains st (description p) t
                                  \<or> icontains st (Some (article p)) t) ?sv)"
      using foldl_add_term_matches[OF b] by (intro ext) simp
    from False b m show ?thesis
      by (simp add: fallback_search_def Let_def Product_filter_def)
  qed
qed

text \<open>The terms of \<open>split\<close>: together they are the query without its whitespace, and
  each is a non-empty run free of whitespace.\<close>

lemma split_from_concat: "concat (split_from cur s) = cur @ filter (\<lambda>c. \<not> isspace c) s"
  by (induction cur s rule: split_from.induct) auto

lemma split_from_terms:
  "list_all (\<lambda>c. \<not> isspace c) cur \<Longrightarrow>
   list_all (\<lambda>t. t \<noteq> [] \<and> list_all (\<lambda>c. \<not> isspace c) t) (split_from cur s)"
  by (induction cur s rule: split_from.induct) auto

lemma split_terms:
  "concat (split s) = filter (\<lambda>c. \<not> isspace c) s \<and>
   list_all (\<lambda>t. t \<noteq> [] \<and> list_all (\<lambda>c. \<not> isspace c) t) (split s)"
  using split_from_concat[of "[]" s] split_from_terms[of "[]" s] by (simp add: split_def)




section \<open>The semantic query service\<close>

lemma fallback_search_subset:
  "fallback_search st query = Inr ids \<Longrightarrow> set ids \<subseteq> product_id ` set (product_rows st)"
  by (auto simp: fallback_search_terms Let_def split: if_splits)

lemma fallback_search_nonempty_reachable:
  "fallback_search st query = Inr ids \<Longrightarrow> ids \<noteq> [] \<Longrightarrow> reachable st"
  by (auto simp: fallback_search_terms Let_def split: if_splits)

lemma fallback_search_empty_catalog:
  "reachable st \<Longrightarrow> product_rows st = [] \<Longrightarrow> fallback_search st query = Inr []"
  by (simp add: fallback_search_terms Let_def)

lemma keep_existing_subset:
  "keep_existing existing_ids pids = Inr ids \<Longrightarrow> set ids \<subseteq> set existing_ids"
  by (induction pids arbitrary: ids) (auto split: if_splits sum.splits option.splits)

lemma keep_existing_none:
  "\<forall>pid\<in>set pids. \<forall>i. as_int pid = Some i \<longrightarrow> i \<notin> set existing_ids \<Longrightarrow>
   keep_existing existing_ids pids = Inr [] \<or> keep_existing existing_ids pids = Inl TypeError"
  by (induction pids) (auto split: option.splits)

lemma validate_response_Inr:
  "snd (validate_response ext st query text) = Inr ids \<Longrightarrow>
   Inr ids = fallback_search st query \<or>
   (ids \<noteq> [] \<and> reachable st \<and> set ids \<subseteq> product_id ` set (product_rows st))"
proof -
  assume a: "snd (validate_response ext st query text) = Inr ids"
  show ?thesis
  proof (cases "Inr ids = fallback_search st query")
    case True
    then show ?thesis by simp
  next
    case False
    with a obtain pids where k: "keep_existing (map product_id (product_rows st)) pids = Inr ids"
      and r: "reachable st" and n: "ids \<noteq> []"
      unfolding validate_response_def Product_ids_def
      by (auto split: sum.splits if_splits)
    from keep_existing_subset[OF k] r n show ?thesis by simp
  qed
qed

lemma semantic_attempt_Inr:
  "snd (semantic_attempt ext st query) = Inr ids \<Longrightarrow>
   Inr ids = fallback_search st query \<or>
   (ids \<noteq> [] \<and> reachable st \<and> set ids \<subseteq> product_id ` set (product_rows st))"
proof -
  assume a: "snd (semantic_attempt ext st query) = Inr ids"
  show ?thesis
  proof (cases "reachable st")
    case False
    with a show ?thesis
      by (simp add: semantic_attempt_def get_all_products_for_context_def)
  next
    case True
    show ?thesis
    proof (cases "product_rows st = []")
      case True
      with \<open>reachable st\<close> a have "ids = []"
        by (simp add: semantic_attempt_def get_all_products_for_context_def)
      with True \<open>reachable st\<close> show ?thesis
        by (simp add: fallback_search_empty_catalog)
    next
      case False
      with \<open>reachable st\<close> a obtain t evs where
        "validate_response ext st query t = (evs, Inr ids)"
        by (auto simp: semantic_attempt_def get_all_products_for_context_def Let_def
                 split: sum.splits prod.splits)
      then have "snd (validate_response ext st query t) = Inr ids" by simp
      then show ?thesis by (rule validate_response_Inr)
    qed
  qed
qed

lemma search_with_chatgpt_snd:
  "snd (search_with_chatgpt self ext st query) =
     (if \<not> api_available self \<or> \<not> api_configured self then fallback_search st query
      else (case snd (semantic_attempt ext st query) of
              Inl e \<Rightarrow> fallback_search st query
            | Inr ids \<Rightarrow> Inr ids))"
  by (simp add: search_with_chatgpt_def split: prod.splits sum.splits)

lemma search_with_chatgpt_cases:
  "snd (search_with_chatgpt self ext st query) = fallback_search st query \<or>
   (\<exists>ids. snd (search_with_chatgpt self ext st query) = Inr ids \<and> ids \<noteq> [] \<and> reachable st \<and>
          set ids \<subseteq> product_id ` set (product_rows st))"
proof (cases "snd (semantic_attempt ext st query)")
  case (Inl e)
  then show ?thesis by (simp add: search_with_chatgpt_snd)
next
  case (Inr ids)
  from semantic_attempt_Inr[OF this] Inr show ?thesis
    by (auto simp: search_with_chatgpt_snd)
qed

lemma search_with_chatgpt_result:
  assumes "snd (search_with_chatgpt self ext st query) = Inr ids"
  shows "set ids \<subseteq> product_id ` set (product_rows st)" and "ids \<noteq> [] \<Longrightarrow> reachable st"
  using assms search_with_chatgpt_cases[of self ext st query]
    fallback_search_subset[of st query ids] fallback_search_nonempty_reachable[of st query ids]
  by auto

lemma search_falls_back_when_attempt_does:
  "snd (semantic_attempt ext st query) = fallback_search st query \<Longrightarrow>
   snd (search_with_chatgpt self ext st query) = fallback_search st query"
  by (cases "fallback_search st query") (simp_all add: search_with_chatgpt_snd)

lemma search_falls_back_when_attempt_raises:
  "snd (semantic_attempt ext st query) = Inl e \<Longrightarrow>
   snd (search_with_chatgpt self ext st query) = fallback_search st query"
  by (simp add: search_with_chatgpt_snd)

lemma search_with_chatgpt_degraded:
  "\<not> api_available self \<or> \<not> api_configured self \<Longrightarrow>
   search_with_chatgpt self ext st query = ([EvLog LWarning], fallback_search st query)"
  by (auto simp: search_with_chatgpt_def)

lemma init_unconfigured:
  "\<not> OPENAI_AVAILABLE \<or> OPENAI_API_KEY = None \<or> OPENAI_API_KEY = Some [] \<Longrightarrow>
   \<not> api_available (SmartSearchService_init OPENAI_AVAILABLE OPENAI_API_KEY) \<or>
   \<not> api_configured (SmartSearchService_init OPENAI_AVAILABLE OPENAI_API_KEY)"
  by (auto simp: SmartSearchService_init_def)

text \<open>
  C3. When the service is not available or not configured, \<open>search_with_chatgpt\<close>
  returns what \<open>fallback_search\<close> returns for the query, and does nothing else than log
  one warning: it builds no catalog context and calls no language model. A service
  built while the library is missing, or with no key or an empty key in the settings, is
  in that state.
\<close>

theorem search_without_service_is_fallback_search:
  "((\<not> api_available self \<or> \<not> api_configured self) \<longrightarrow>
      search_with_chatgpt self ext st query = ([EvLog LWarning], fallback_search st query))
   \<and> ((\<not> OPENAI_AVAILABLE \<or> OPENAI_API_KEY = None \<or> OPENAI_API_KEY = Some []) \<longrightarrow>
      search_with_chatgpt (SmartSearchService_init OPENAI_AVAILABLE OPENAI_API_KEY) ext st query
        = ([EvLog LWarning], fallback_search st query))"
  using search_with_chatgpt_degraded init_unconfigured by blast

theorem search_without_service_is_fallback_search_witness:
  "\<not> api_configured \<lparr>api_available = True, api_configured = False\<rparr>
   \<and> search_with_chatgpt \<lparr>api_available = True, api_configured = False\<rparr>
        (answering (relevant [JInt 9])) example_store ''lamp'' = ([EvLog LWarning], Inr [2])
   \<and> search_with_chatgpt (SmartSearchService_init False (Some ''sk-key''))
        (answering (relevant [JInt 9])) example_store ''lamp'' = ([EvLog LWarning], Inr [2])
   \<and> search_with_chatgpt (SmartSearchService_init True None)
        (answering (relevant [JInt 9])) example_store ''lamp'' = ([EvLog LWarning], Inr [2])"
proof -
  have f: "fallback_search example_store ''lamp'' = Inr [2]" by code_simp
  show ?thesis
    using f
      search_without_service_is_fallback_search
        [of "\<lparr>api_available = True, api_configured = False\<rparr>" "answering (relevant [JInt 9])"
            example_store "''lamp''" False "Some ''sk-key''"]
      search_without_service_is_fallback_search
        [of "\<lparr>api_available = True, api_configured = False\<rparr>" "answering (relevant [JInt 9])"
            example_store "''lamp''" True None]
    by simp
qed

text \<open>The steps of the attempt when the store answers with at least one product and the
  model answers with a text.\<close>

lemma semantic_attempt_answered:
  assumes "reachable st" and "product_rows st \<noteq> []"
    and "chat_create ext (create_enhanced_search_prompt query
           (map product_info (product_rows st))) = Inr (Some content # others)"
  shows "semantic_attempt ext st query =
           ([EvContext, EvPrompt,
             EvLLM (create_enhanced_search_prompt query (map product_info (product_rows st))),
             EvLog LInfo] @ fst (validate_response ext st query (strip content)),
            snd (validate_response ext st query (strip content)))"
  using assms
  by (simp add: semantic_attempt_def get_all_products_for_context_def Let_def
        response_text_def split: prod.splits)

lemma semantic_attempt_offline:
  "\<not> reachable st \<Longrightarrow> semantic_attempt ext st query = ([EvContext], Inl DatabaseError)"
  by (simp add: semantic_attempt_def get_all_products_for_context_def)

lemma semantic_attempt_empty_catalog:
  "reachable st \<Longrightarrow> product_rows st = [] \<Longrightarrow>
   semantic_attempt ext st query = ([EvContext], Inr [])"
  by (simp add: semantic_attempt_def get_all_products_for_context_def)

text \<open>Whatever the attempt does, the search ends in the literal matcher when the
  validation of the answer does, or raises.\<close>

lemma search_falls_back_with_validation:
  assumes "chat_create ext (create_enhanced_search_prompt query
             (map product_info (product_rows st))) = Inr (Some content # others)"
    and "snd (validate_response ext st query (strip content)) = fallback_search st query
         \<or> (\<exists>e. snd (validate_response ext st query (strip content)) = Inl e)"
  shows "snd (search_with_chatgpt self ext st query) = fallback_search st query"
proof (cases "reachable st")
  case False
  then show ?thesis
    by (simp add: search_with_chatgpt_snd semantic_attempt_offline)
next
  case True
  show ?thesis
  proof (cases "product_rows st = []")
    case True
    with \<open>reachable st\<close> show ?thesis
      by (simp add: search_with_chatgpt_snd semantic_attempt_empty_catalog
            fallback_search_empty_catalog)
  next
    case False
    from semantic_attempt_answered[OF \<open>reachable st\<close> False assms(1)]
    have s: "snd (semantic_attempt ext st query) =
               snd (validate_response ext st query (strip content))" by simp
    from assms(2) show ?thesis
    proof
      assume "snd (validate_response ext st query (strip content)) = fallback_search st query"
      with s show ?thesis by (simp add: search_falls_back_when_attempt_does)
    next
      assume "\<exists>e. snd (validate_response ext st query (strip content)) = Inl e"
      with s show ?thesis by (auto simp: search_falls_back_when_attempt_raises)
    qed
  qed
qed

text \<open>
  C6. When the text that the language model returns does not parse as JSON,
  \<open>search_with_chatgpt\<close> returns what \<open>fallback_search\<close> returns for the query: the
  parse error does not reach the caller. When the model was asked (the service is
  available and configured and the store answered with at least one product) the
  failure is logged as an error.
\<close>

theorem search_on_unparsable_answer:
  assumes "chat_create ext (create_enhanced_search_prompt query
             (map product_info (product_rows st))) = Inr (Some content # others)"
    and "json_loads ext (strip content) = Inl JSONDecodeError"
  shows "snd (search_with_chatgpt self ext st query) = fallback_search st query
       \<and> (api_available self \<and> api_configured self \<and> reachable st \<and> product_rows st \<noteq> []
            \<longrightarrow> EvLog LError \<in> set (fst (search_with_chatgpt self ext st query)))"
proof -
  have v: "validate_response ext st query (strip content)
             = ([EvLog LError], fallback_search st query)"
    using assms(2) by (simp add: validate_response_def)
  then have r: "snd (search_with_chatgpt self ext st query) = fallback_search st query"
    using search_falls_back_with_validation[OF assms(1)] by simp
  have "EvLog LError \<in> set (fst (search_with_chatgpt self ext st query))"
    if "api_available self" "api_configured self" "reachable st" "product_rows st \<noteq> []"
    using semantic_attempt_answered[OF that(3) that(4) assms(1)] v that(1,2)
    by (auto simp: search_with_chatgpt_def split: sum.splits)
  with r show ?thesis by blast
qed

theorem search_on_unparsable_answer_witness:
  "chat_create garbling (create_enhanced_search_prompt ''oak''
       (map product_info (product_rows example_store))) = Inr (Some ''not json'' # [])
   \<and> json_loads garbling (strip ''not json'') = Inl JSONDecodeError
   \<and> snd (search_with_chatgpt \<lparr>api_available = True, api_configured = True\<rparr>
            garbling example_store ''oak'') = Inr [5]
   \<and> fallback_search example_store ''oak'' = Inr [5]
   \<and> EvLog LError \<in> set (fst (search_with_chatgpt \<lparr>api_available = True, api_configured = True\<rparr>
            garbling example_store ''oak''))"
proof -
  have c: "chat_create garbling (create_enhanced_search_prompt ''oak''
       (map product_info (product_rows example_store))) = Inr (Some ''not json'' # [])"
    by (simp add: garbling_def)
  have j: "json_loads garbling (strip ''not json'') = Inl JSONDecodeError"
    by (simp add: garbling_def)
  have f: "fallback_search example_store ''oak'' = Inr [5]" by code_simp
  have n: "reachable example_store \<and> product_rows example_store \<noteq> []"
    by (simp add: example_store_def)
  show ?thesis
    using c j f n
      search_on_unparsable_answer[OF c j, of "\<lparr>api_available = True, api_configured = True\<rparr>"]
    by simp
qed

text \<open>
  C7. When the catalog holds no product, \<open>search_with_chatgpt\<close> returns the empty list;
  no prompt is built and the language model is not called.
\<close>

theorem search_on_empty_catalog:
  assumes "product_rows st = []"
  shows "(reachable st \<longrightarrow> snd (search_with_chatgpt self ext st query) = Inr [])
       \<and> EvPrompt \<notin> set (fst (search_with_chatgpt self ext st query))
       \<and> (\<forall>p. EvLLM p \<notin> set (fst (search_with_chatgpt self ext st query)))"
proof (cases "reachable st")
  case True
  with assms show ?thesis
    by (auto simp: search_with_chatgpt_def semantic_attempt_empty_catalog
          fallback_search_empty_catalog)
next
  case False
  then show ?thesis
    by (auto simp: search_with_chatgpt_def semantic_attempt_offline)
qed

theorem search_on_empty_catalog_witness:
  "product_rows empty_store = [] \<and> reachable empty_store
   \<and> search_with_chatgpt \<lparr>api_available = True, api_configured = True\<rparr>
        (answering (relevant [JInt 5])) empty_store ''anything'' = ([EvContext], Inr [])
   \<and> EvPrompt \<notin> set (fst (search_with_chatgpt \<lparr>api_available = True, api_configured = True\<rparr>
        (answering (relevant [JInt 5])) empty_store ''anything''))"
proof -
  have e: "product_rows empty_store = []" "reachable empty_store"
    by (simp_all add: empty_store_def)
  have s: "search_with_chatgpt \<lparr>api_available = True, api_configured = True\<rparr>
        (answering (relevant [JInt 5])) empty_store ''anything'' = ([EvContext], Inr [])"
    using e by (simp add: search_with_chatgpt_def semantic_attempt_empty_catalog)
  show ?thesis
    using e s
      search_on_empty_catalog[OF e(1), of "\<lparr>api_available = True, api_configured = True\<rparr>"
        "answering (relevant [JInt 5])" "''anything''"]
    by simp
qed

lemma validate_response_no_existing:
  assumes "json_loads ext t = Inr result"
    and "get_relevant_products result = Inr v"
    and "iterate v = Inr pids"
    and "\<forall>pid\<in>set pids. \<forall>i. as_int pid = Some i \<longrightarrow> i \<notin> product_id ` set (product_rows st)"
  shows "snd (validate_response ext st query t) = fallback_search st query
         \<or> (\<exists>e. snd (validate_response ext st query t) = Inl e)"
proof (cases "reachable st")
  case False
  with assms(1,2) show ?thesis
    by (simp add: validate_response_def Product_ids_def)
next
  case True
  from assms(4) have "\<forall>pid\<in>set pids. \<forall>i. as_int pid = Some i \<longrightarrow>
                        i \<notin> set (map product_id (product_rows st))" by simp
  from keep_existing_none[OF this] True assms(1,2,3) show ?thesis
    by (auto simp: validate_response_def Product_ids_def)
qed

text \<open>
  C2. Every identifier that \<open>search_with_chatgpt\<close> returns is the identifier of a
  product of the catalog: an identifier of the language model's answer that no product
  has is left out. When no identifier of the answer belongs to a product,
  \<open>search_with_chatgpt\<close> returns what \<open>fallback_search\<close> returns for the query.
\<close>

theorem search_returns_existing_ids:
  "(\<forall>ids. snd (search_with_chatgpt self ext st query) = Inr ids \<longrightarrow>
          set ids \<subseteq> product_id ` set (product_rows st))
   \<and> (chat_create ext (create_enhanced_search_prompt query
          (map product_info (product_rows st))) = Inr (Some content # others)
       \<and> json_loads ext (strip content) = Inr result
       \<and> get_relevant_products result = Inr v
       \<and> iterate v = Inr pids
       \<and> (\<forall>pid\<in>set pids. \<forall>i. as_int pid = Some i \<longrightarrow> i \<notin> product_id ` set (product_rows st))
       \<longrightarrow> snd (search_with_chatgpt self ext st query) = fallback_search st query)"
  using search_with_chatgpt_result(1)[of self ext st query]
    search_falls_back_with_validation[of ext query st content others self]
    validate_response_no_existing[of ext "strip content" result v pids st query]
  by blast

theorem search_returns_existing_ids_witness:
  "snd (search_with_chatgpt \<lparr>api_available = True, api_configured = True\<rparr>
          (answering (relevant [JInt 5, JInt 77, JInt 2, JInt 9])) example_store ''oak'')
     = Inr [5, 2, 9]
   \<and> set [5, 2, 9] \<subseteq> product_id ` set (product_rows example_store)
   \<and> chat_create (answering (relevant [JInt 77, JInt 78]))
        (create_enhanced_search_prompt ''oak'' (map product_info (product_rows example_store)))
        = Inr (Some '' json '' # [])
   \<and> json_loads (answering (relevant [JInt 77, JInt 78])) (strip '' json '')
        = Inr (relevant [JInt 77, JInt 78])
   \<and> get_relevant_products (relevant [JInt 77, JInt 78]) = Inr (JArr [JInt 77, JInt 78])
   \<and> iterate (JArr [JInt 77, JInt 78]) = Inr [JInt 77, JInt 78]
   \<and> 77 \<notin> product_id ` set (product_rows example_store)
   \<and> 78 \<notin> product_id ` set (product_rows example_store)
   \<and> snd (search_with_chatgpt \<lparr>api_available = True, api_configured = True\<rparr>
          (answering (relevant [JInt 77, JInt 78])) example_store ''oak'')
        = fallback_search example_store ''oak''
   \<and> fallback_search example_store ''oak'' = Inr [5]"
proof -
  have r: "snd (search_with_chatgpt \<lparr>api_available = True, api_configured = True\<rparr>
          (answering (relevant [JInt 5, JInt 77, JInt 2, JInt 9])) example_store ''oak'')
     = Inr [5, 2, 9]" by code_simp
  have c: "chat_create (answering (relevant [JInt 77, JInt 78]))
        (create_enhanced_search_prompt ''oak'' (map product_info (product_rows example_store)))
        = Inr (Some '' json '' # [])" by (simp add: answering_def)
  have j: "json_loads (answering (relevant [JInt 77, JInt 78])) (strip '' json '')
        = Inr (relevant [JInt 77, JInt 78])" by code_simp
  have g: "get_relevant_products (relevant [JInt 77, JInt 78]) = Inr (JArr [JInt 77, JInt 78])"
    by (simp add: get_relevant_products_def relevant_def)
  have i: "iterate (JArr [JInt 77, JInt 78]) = Inr [JInt 77, JInt 78]" by simp
  have n: "77 \<notin> product_id ` set (product_rows example_store)"
    "78 \<notin> product_id ` set (product_rows example_store)"
    by (simp_all add: example_store_def example_lamp_def example_chair_def
          example_microphone_def)
  have f: "fallback_search example_store ''oak'' = Inr [5]" by code_simp
  have h: "\<forall>pid\<in>set [JInt 77, JInt 78]. \<forall>i. as_int pid = Some i \<longrightarrow>
             i \<notin> product_id ` set (product_rows example_store)"
    using n by simp
  have sub: "set [5, 2, 9] \<subseteq> product_id ` set (product_rows example_store)"
    by (rule search_returns_existing_ids[THEN conjunct1, rule_format, OF r])
  have hyps:
    "chat_create (answering (relevant [JInt 77, JInt 78]))
        (create_enhanced_search_prompt ''oak'' (map product_info (product_rows example_store)))
        = Inr (Some '' json '' # [])
     \<and> json_loads (answering (relevant [JInt 77, JInt 78])) (strip '' json '')
        = Inr (relevant [JInt 77, JInt 78])
     \<and> get_relevant_products (relevant [JInt 77, JInt 78]) = Inr (JArr [JInt 77, JInt 78])
     \<and> iterate (JArr [JInt 77, JInt 78]) = Inr [JInt 77, JInt 78]
     \<and> (\<forall>pid\<in>set [JInt 77, JInt 78]. \<forall>i. as_int pid = Some i \<longrightarrow>
             i \<notin> product_id ` set (product_rows example_store))"
    by (intro conjI c j g i h)
  have eq: "snd (search_with_chatgpt \<lparr>api_available = True, api_configured = True\<rparr>
          (answering (relevant [JInt 77, JInt 78])) example_store ''oak'')
        = fallback_search example_store ''oak''"
    by (rule search_returns_existing_ids[THEN conjunct2, THEN mp, OF hyps])
  show ?thesis
    by (intro conjI r sub c j g i n eq f)
qed

section \<open>The order of the materialized products\<close>

lemma strip_Nil [simp]: "strip [] = []"
  by (simp add: strip_def)

lemma product_dict_of_Some:
  "product_dict_of ps i = Some p \<Longrightarrow> p \<in> set ps \<and> product_id p = i"
  by (auto simp: product_dict_of_def dest!: map_of_SomeD)

lemma product_dict_of_defined:
  "i \<in> product_id ` set ps \<Longrightarrow> \<exists>p. product_dict_of ps i = Some p"
proof -
  assume "i \<in> product_id ` set ps"
  then have "i \<in> fst ` set (rev (map (\<lambda>p. (product_id p, p)) ps))" by force
  then have "map_of (rev (map (\<lambda>p. (product_id p, p)) ps)) i \<noteq> None"
    by (simp only: map_of_eq_None_iff not_not)
  then show ?thesis by (auto simp: product_dict_of_def)
qed

lemma map_filter_keys:
  "\<forall>i\<in>set ids. \<exists>p. d i = Some p \<and> f p = i \<and> p \<in> A \<Longrightarrow>
   map f (List.map_filter d ids) = ids \<and> set (List.map_filter d ids) \<subseteq> A"
  by (induction ids) (auto simp: map_filter_simps)

text \<open>
  C4. When the search returns a non-empty identifier list, \<open>smart_search\<close> returns a
  list of products of the catalog whose identifiers, read in order, are that list: the
  product with the first identifier comes first, whatever the order of the store.
\<close>

theorem smart_search_follows_identifier_order:
  assumes "strip query \<noteq> []"
    and "snd (search_with_chatgpt self ext st query) = Inr ids"
    and "ids \<noteq> []"
  shows "\<exists>ps. snd (smart_search self ext st query) = Inr (AsList ps)
              \<and> map product_id ps = ids \<and> set ps \<subseteq> set (product_rows st)"
proof -
  let ?ps = "filter (\<lambda>p. product_id p \<in> set ids) (product_rows st)"
  from search_with_chatgpt_result[OF assms(2)] assms(3)
  have sub: "set ids \<subseteq> product_id ` set (product_rows st)" and r: "reachable st" by auto
  have "\<forall>i\<in>set ids. \<exists>p. product_dict_of ?ps i = Some p \<and> product_id p = i
                             \<and> p \<in> set (product_rows st)"
  proof
    fix i assume i: "i \<in> set ids"
    with sub have "i \<in> product_id ` set ?ps" by auto
    from product_dict_of_defined[OF this] obtain p where p: "product_dict_of ?ps i = Some p"
      by blast
    from product_dict_of_Some[OF p] p
    show "\<exists>p. product_dict_of ?ps i = Some p \<and> product_id p = i \<and> p \<in> set (product_rows st)"
      by auto
  qed
  from map_filter_keys[OF this]
  have m: "map product_id (List.map_filter (product_dict_of ?ps) ids) = ids"
    and s: "set (List.map_filter (product_dict_of ?ps) ids) \<subseteq> set (product_rows st)"
    by auto
  have q: "query \<noteq> []" using assms(1) by auto
  obtain evs where e: "search_with_chatgpt self ext st query = (evs, Inr ids)"
    using assms(2) by (cases "search_with_chatgpt self ext st query") auto
  have "snd (smart_search self ext st query)
          = Inr (AsList (List.map_filter (product_dict_of ?ps) ids))"
    using assms(1,3) q r e by (simp add: smart_search_def Product_id_in_def Let_def)
  with m s show ?thesis by blast
qed

theorem smart_search_follows_identifier_order_witness:
  "strip ''seat'' \<noteq> []
   \<and> snd (search_with_chatgpt \<lparr>api_available = True, api_configured = True\<rparr>
            (answering (relevant [JInt 5, JInt 2, JInt 9])) example_store ''seat'')
       = Inr [5, 2, 9]
   \<and> [5, 2, 9] \<noteq> ([] :: int list)
   \<and> map product_id (product_rows example_store) = [2, 5, 9]
   \<and> snd (smart_search \<lparr>api_available = True, api_configured = True\<rparr>
            (answering (relevant [JInt 5, JInt 2, JInt 9])) example_store ''seat'')
       = Inr (AsList [example_chair, example_lamp, example_microphone])
   \<and> map product_id [example_chair, example_lamp, example_microphone] = [5, 2, 9]"
proof -
  have a: "strip ''seat'' \<noteq> []" by code_simp
  have b: "snd (search_with_chatgpt \<lparr>api_available = True, api_configured = True\<rparr>
            (answering (relevant [JInt 5, JInt 2, JInt 9])) example_store ''seat'')
       = Inr [5, 2, 9]" by code_simp
  have c: "[5, 2, 9] \<noteq> ([] :: int list)" by simp
  have d: "map product_id (product_rows example_store) = [2, 5, 9]" by code_simp
  have e: "snd (smart_search \<lparr>api_available = True, api_configured = True\<rparr>
            (answering (relevant [JInt 5, JInt 2, JInt 9])) example_store ''seat'')
       = Inr (AsList [example_chair, example_lamp, example_microphone])" by code_simp
  have f: "map product_id [example_chair, example_lamp, example_microphone] = [5, 2, 9]"
    by code_simp
  from smart_search_follows_identifier_order[OF a b c] e
  have "map product_id [example_chair, example_lamp, example_microphone] = [5, 2, 9]"
    by auto
  with a b c d e show ?thesis by simp
qed

section \<open>The status probe\<close>

text \<open>
  C8. When the setting \<open>OPENAI_API_KEY\<close> is not set (or is the empty string),
  \<open>smart_search_status\<close> answers with exactly the two members \<open>available\<close> and
  \<open>configured\<close>, both false.
\<close>

theorem status_without_credential:
  "OPENAI_API_KEY = None \<or> OPENAI_API_KEY = Some [] \<Longrightarrow>
   smart_search_status smart_search_service OPENAI_API_KEY
     = JObj [(''available'', JBool False), (''configured'', JBool False)]"
  by (auto simp: smart_search_status_def)

theorem status_without_credential_witness:
  "smart_search_status (SmartSearchService_init True None) None
     = JObj [(''available'', JBool False), (''configured'', JBool False)]"
  using status_without_credential[of None "SmartSearchService_init True None"] by simp

lemma strip_blank: "list_all isspace s \<Longrightarrow> strip s = []"
proof -
  assume "list_all isspace s"
  then have "\<forall>c\<in>set s. isspace c" by (simp add: list_all_iff)
  then have d: "dropWhile isspace s = []" by (simp only: dropWhile_eq_Nil_conv)
  show ?thesis unfolding strip_def d by simp
qed

lemma api_available_init [simp]:
  "api_available (SmartSearchService_init OPENAI_AVAILABLE OPENAI_API_KEY) = OPENAI_AVAILABLE"
  by (simp add: SmartSearchService_init_def split: option.splits)

text \<open>
  C9. When the setting \<open>OPENAI_API_KEY\<close> is a non-empty string of whitespace only, the
  probe reports \<open>configured\<close> true (and \<open>available\<close> as the library is), while the
  service built from the same setting is not configured and answers every search with
  the literal matcher, after one warning.
\<close>

theorem status_and_service_disagree_on_blank_key:
  assumes "key \<noteq> []" and "list_all isspace key"
  shows "smart_search_status (SmartSearchService_init OPENAI_AVAILABLE (Some key)) (Some key)
           = JObj [(''available'', JBool OPENAI_AVAILABLE), (''configured'', JBool True)]
       \<and> \<not> api_configured (SmartSearchService_init OPENAI_AVAILABLE (Some key))
       \<and> search_with_chatgpt (SmartSearchService_init OPENAI_AVAILABLE (Some key)) ext st query
           = ([EvLog LWarning], fallback_search st query)"
proof -
  have s: "strip key = []" using assms(2) by (rule strip_blank)
  have c: "\<not> api_configured (SmartSearchService_init OPENAI_AVAILABLE (Some key))"
    using s by (simp add: SmartSearchService_init_def)
  have p: "smart_search_status (SmartSearchService_init OPENAI_AVAILABLE (Some key)) (Some key)
           = JObj [(''available'', JBool OPENAI_AVAILABLE), (''configured'', JBool True)]"
    using assms(1) by (simp add: smart_search_status_def)
  from c have "search_with_chatgpt (SmartSearchService_init OPENAI_AVAILABLE (Some key)) ext st query
           = ([EvLog LWarning], fallback_search st query)"
    by (simp add: search_with_chatgpt_degraded)
  with c p show ?thesis by (intro conjI)
qed

theorem status_and_service_disagree_on_blank_key_witness:
  "''  '' \<noteq> [] \<and> list_all isspace ''  ''
   \<and> smart_search_status (SmartSearchService_init True (Some ''  '')) (Some ''  '')
        = JObj [(''available'', JBool True), (''configured'', JBool True)]
   \<and> \<not> api_configured (SmartSearchService_init True (Some ''  ''))
   \<and> search_with_chatgpt (SmartSearchService_init True (Some ''  ''))
        (answering (relevant [JInt 9])) example_store ''lamp''
        = ([EvLog LWarning], Inr [2])"
proof -
  have a: "''  '' \<noteq> []" by simp
  have b: "list_all isspace ''  ''" by code_simp
  have f: "fallback_search example_store ''lamp'' = Inr [2]" by code_simp
  note t = status_and_service_disagree_on_blank_key
             [OF a b, of True "answering (relevant [JInt 9])" example_store "''lamp''"]
  have s: "search_with_chatgpt (SmartSearchService_init True (Some ''  ''))
        (answering (relevant [JInt 9])) example_store ''lamp''
        = ([EvLog LWarning], Inr [2])"
    using t[THEN conjunct2, THEN conjunct2] f by simp
  show ?thesis
    by (intro conjI a b t[THEN conjunct1] t[THEN conjunct2, THEN conjunct1] s)
qed

section \<open>The view\<close>

text \<open>When \<open>smart_search\<close> raises, the handler of the search block asks the service for
  \<open>expand_search_query\<close>, and that lookup raises in its turn.\<close>

lemma search_block_handler_raises:
  "search_query \<noteq> [] \<Longrightarrow>
   snd (smart_search smart_search_service ext st search_query) = Inl e \<Longrightarrow>
   search_block smart_search_service ext st search_query = Inl AttributeError"
  by (simp add: search_block_def getattr_expand_search_query_def)

lemma search_block_never_falls_back:
  "search_block smart_search_service ext st search_query = Inr (products, stype, msgs) \<Longrightarrow>
   stype \<noteq> ''fallback'' \<and> msgs = []"
  by (auto simp: search_block_def getattr_expand_search_query_def
           split: if_splits sum.splits)

text \<open>
  C1. The view does not do what the claim says. When the query is not blank and
  \<open>smart_search\<close> raises, the handler itself raises \<open>AttributeError\<close>, which leaves
  \<open>product_list\<close>: no product list, no search type \<open>fallback\<close> and no warning reach
  the caller.
\<close>

theorem product_list_raises_when_smart_search_raises:
  assumes "strip (or_blank (GET_search request)) \<noteq> []"
    and "snd (smart_search smart_search_service ext st (strip (or_blank (GET_search request))))
           = Inl e"
  shows "product_list smart_search_service ext st request = Inl AttributeError"
  using search_block_handler_raises[OF assms]
  by (simp add: product_list_def Let_def)

theorem product_list_raises_when_smart_search_raises_witness:
  "strip (or_blank (GET_search \<lparr>GET_search = Some ''lamp'', GET_tag = None, GET_page = None\<rparr>))
     \<noteq> []
   \<and> snd (smart_search (SmartSearchService_init True (Some ''sk-key''))
            (answering (relevant [JInt 2])) offline_store ''lamp'') = Inl DatabaseError
   \<and> product_list (SmartSearchService_init True (Some ''sk-key''))
        (answering (relevant [JInt 2])) offline_store
        \<lparr>GET_search = Some ''lamp'', GET_tag = None, GET_page = None\<rparr> = Inl AttributeError"
proof -
  have a: "strip (or_blank (GET_search
             \<lparr>GET_search = Some ''lamp'', GET_tag = None, GET_page = None\<rparr>)) \<noteq> []"
    by code_simp
  have q: "strip (or_blank (GET_search
             \<lparr>GET_search = Some ''lamp'', GET_tag = None, GET_page = None\<rparr>)) = ''lamp''"
    by code_simp
  have b: "snd (smart_search (SmartSearchService_init True (Some ''sk-key''))
            (answering (relevant [JInt 2])) offline_store ''lamp'') = Inl DatabaseError"
    by code_simp
  have b': "snd (smart_search (SmartSearchService_init True (Some ''sk-key''))
            (answering (relevant [JInt 2])) offline_store
            (strip (or_blank (GET_search
               \<lparr>GET_search = Some ''lamp'', GET_tag = None, GET_page = None\<rparr>))))
          = Inl DatabaseError"
    using b by (simp only: q)
  show ?thesis
    by (intro conjI a b product_list_raises_when_smart_search_raises[OF a b'])
qed

text \<open>A tag value that is an integer and the identifier of no tag is ignored: the products
  and the search type stay as they were, and no tag is selected.\<close>

lemma tag_block_unknown_id:
  "py_int tag_filter = Some i \<Longrightarrow> reachable st \<Longrightarrow>
   find (\<lambda>t. tag_id t = i) (tag_rows st) = None \<Longrightarrow>
   tag_block st search_query tag_filter products stype = Inr (None, products, stype)"
  by (auto simp: tag_block_def Tag_get_def)

lemma tag_block_malformed:
  "tag_filter \<noteq> [] \<Longrightarrow> py_int tag_filter = None \<Longrightarrow>
   tag_block st search_query tag_filter products stype = Inl ValueError"
  by (simp add: tag_block_def Tag_get_def)

text \<open>
  C10. The view does not do what the claim says for every value. A tag value that is not
  an integer, such as \<open>abc\<close>, identifies no tag, and the lookup of the tag raises
  \<open>ValueError\<close>, which the handler for a missing tag does not take: it leaves
  \<open>product_list\<close>.
\<close>

theorem product_list_raises_on_malformed_tag:
  assumes "GET_search request = None"
    and "GET_tag request = Some tag_filter"
    and "tag_filter \<noteq> []"
    and "py_int tag_filter = None"
  shows "product_list smart_search_service ext st request = Inl ValueError"
proof -
  have "search_block smart_search_service ext st [] = Inr (AsQuerySet (product_rows st), ''all'', [])"
    by (simp add: search_block_def)
  with assms tag_block_malformed[OF assms(3,4)] show ?thesis
    by (simp add: product_list_def Let_def or_blank_def)
qed

theorem product_list_raises_on_malformed_tag_witness:
  "''abc'' \<noteq> [] \<and> py_int ''abc'' = None
   \<and> product_list (SmartSearchService_init False None) garbling example_store
        \<lparr>GET_search = None, GET_tag = Some ''abc'', GET_page = None\<rparr> = Inl ValueError"
proof -
  have a: "''abc'' \<noteq> []" by simp
  have b: "py_int ''abc'' = None" by code_simp
  have c: "product_list (SmartSearchService_init False None) garbling example_store
        \<lparr>GET_search = None, GET_tag = Some ''abc'', GET_page = None\<rparr> = Inl ValueError"
    by (rule product_list_raises_on_malformed_tag[OF _ _ a b]) simp_all
  show ?thesis by (intro conjI a b c)
qed

end
